theory Spec2Isabelle
  imports
    Complex_Main
    "HOL-Library.Sublist"
    "HOL-Library.Char_ord"
    "HOL-Library.List_Lexorder"
    "HOL-Library.AList"
begin

section \<open>Python values\<close>

subsection \<open>Strings\<close>

text \<open>
  A Python \<open>str\<close> is modelled as a \<open>string\<close>, a list of 8-bit characters. The string
  methods the scripts use are given on that type: \<open>str.lower\<close> lowers the ASCII letters
  \<open>A\<close> to \<open>Z\<close>, \<open>w in s\<close> is the contiguous-sublist test, \<open>s.endswith(x)\<close> and
  \<open>s.startswith(x)\<close> are suffix and prefix tests.
\<close>

definition lower_char :: "char \<Rightarrow> char" where
  "lower_char c =
     (let n = (of_char c :: nat) in if 65 \<le> n \<and> n \<le> 90 then char_of (n + 32) else c)"

definition lower :: "string \<Rightarrow> string" where
  "lower s = map lower_char s"

definition str_in :: "string \<Rightarrow> string \<Rightarrow> bool" where
  "str_in w s = sublist w s"

definition endswith :: "string \<Rightarrow> string \<Rightarrow> bool" where
  "endswith s x = suffix x s"

definition endswith_any :: "string \<Rightarrow> string list \<Rightarrow> bool" where
  "endswith_any s xs = list_ex (endswith s) xs"

definition startswith :: "string \<Rightarrow> string \<Rightarrow> bool" where
  "startswith s x = prefix x s"

definition newline :: char where
  "newline = CHR 0x0A"

definition backslash :: char where
  "backslash = CHR 0x5C"

text \<open>\<open>s.replace(a, t)\<close> for a one-character \<open>a\<close>, and \<open>s.lstrip(a)\<close>.\<close>

definition replace_char :: "char \<Rightarrow> string \<Rightarrow> string \<Rightarrow> string" where
  "replace_char a t s = concat (map (\<lambda>c. if c = a then t else [c]) s)"

definition lstrip_char :: "char \<Rightarrow> string \<Rightarrow> string" where
  "lstrip_char a s = dropWhile (\<lambda>c. c = a) s"

text \<open>\<open>s.rfind(a)\<close> for a one-character \<open>a\<close>: the last index of \<open>a\<close>, \<open>None\<close> for -1.\<close>

fun rfind_char :: "char \<Rightarrow> string \<Rightarrow> nat option" where
  "rfind_char a [] = None"
| "rfind_char a (c # s) =
     (case rfind_char a s of
        Some i \<Rightarrow> Some (Suc i)
      | None \<Rightarrow> if c = a then Some 0 else None)"

subsection \<open>JSON values and dictionaries\<close>

text \<open>
  What \<open>json.loads\<close> returns: \<open>None\<close>, a bool, an int, a float (its value as a
  rational; NaN and the infinities are outside the model), a str, a list or a dict.
  A dict is an association list with distinct keys, in insertion order.
\<close>

datatype json =
    JNull
  | JBool bool
  | JInt int
  | JFloat rat
  | JStr string
  | JList "json list"
  | JDict "(string \<times> json) list"

type_synonym pydict = "(string \<times> json) list"

datatype py_error = TypeError | KeyError | AttributeError | ReError

text \<open>\<open>d.get(k)\<close>, \<open>d.get(k, v)\<close> and \<open>d[k] = v\<close>.\<close>

definition dict_get :: "pydict \<Rightarrow> string \<Rightarrow> json" where
  "dict_get d k = (case map_of d k of None \<Rightarrow> JNull | Some v \<Rightarrow> v)"

definition dict_get_default :: "pydict \<Rightarrow> string \<Rightarrow> json \<Rightarrow> json" where
  "dict_get_default d k v0 = (case map_of d k of None \<Rightarrow> v0 | Some v \<Rightarrow> v)"

definition dict_set :: "pydict \<Rightarrow> string \<Rightarrow> json \<Rightarrow> pydict" where
  "dict_set d k v = AList.update k v d"

text \<open>Truth value testing, as \<open>if x\<close>, \<open>not x\<close> and \<open>any\<close> apply it.\<close>

fun truthy :: "json \<Rightarrow> bool" where
  "truthy JNull = False"
| "truthy (JBool b) = b"
| "truthy (JInt i) = (i \<noteq> 0)"
| "truthy (JFloat q) = (q \<noteq> 0)"
| "truthy (JStr s) = (s \<noteq> [])"
| "truthy (JList xs) = (xs \<noteq> [])"
| "truthy (JDict d) = (d \<noteq> [])"

definition py_any :: "json list \<Rightarrow> bool" where
  "py_any xs = list_ex truthy xs"

text \<open>\<open>len(x)\<close> and iteration over \<open>x\<close>; both raise \<open>TypeError\<close> on a scalar.\<close>

fun py_len :: "json \<Rightarrow> py_error + nat" where
  "py_len (JList xs) = Inr (length xs)"
| "py_len (JStr s) = Inr (length s)"
| "py_len (JDict d) = Inr (length d)"
| "py_len _ = Inl TypeError"

fun py_iter :: "json \<Rightarrow> py_error + json list" where
  "py_iter (JList xs) = Inr xs"
| "py_iter (JStr s) = Inr (map (\<lambda>c. JStr [c]) s)"
| "py_iter (JDict d) = Inr (map (\<lambda>kv. JStr (fst kv)) d)"
| "py_iter _ = Inl TypeError"

text \<open>The numeric value of a JSON value in a comparison with a number (a bool is an int).\<close>

fun py_number :: "json \<Rightarrow> py_error + rat" where
  "py_number (JInt i) = Inr (of_int i)"
| "py_number (JFloat q) = Inr q"
| "py_number (JBool b) = Inr (if b then 1 else 0)"
| "py_number _ = Inl TypeError"

section \<open>generate\_changelog.py\<close>

subsection \<open>ChangelogGenerator.categorize\_changes\<close>

text \<open>
  The \<open>merge_info\<close> dict that \<open>extract_mr_info_from_commit\<close> builds and
  \<open>get_mr_details_from_api\<close> extends. A field is \<open>None\<close> when the key is absent, and
  \<open>categorize_changes\<close> reads each with a default.
\<close>

record merge_info =
  files_changed :: "string list option"
  labels :: "string list option"
  commit_message :: "string option"
  title :: "string option"

definition get_list :: "string list option \<Rightarrow> string list" where
  "get_list v = (case v of None \<Rightarrow> [] | Some xs \<Rightarrow> xs)"

definition get_str :: "string option \<Rightarrow> string" where
  "get_str v = (case v of None \<Rightarrow> [] | Some s \<Rightarrow> s)"

definition any_label :: "string list \<Rightarrow> string list \<Rightarrow> bool" where
  "any_label names ls = list_ex (\<lambda>label. label \<in> set names) ls"

definition any_word :: "string list \<Rightarrow> string \<Rightarrow> string \<Rightarrow> bool" where
  "any_word ws msg ttl = list_ex (\<lambda>word. str_in word msg \<or> str_in word ttl) ws"

definition categorize_changes :: "merge_info \<Rightarrow> string" where
  "categorize_changes mi =
     (let files = get_list (files_changed mi);
          ls = get_list (labels mi);
          msg = lower (get_str (commit_message mi));
          ttl = lower (get_str (title mi))
      in
        if any_label [''breaking-change'', ''major''] ls then ''breaking''
        else if any_label [''feature'', ''enhancement''] ls then ''feature''
        else if any_label [''bugfix'', ''fix'', ''bug''] ls then ''fix''
        else if any_label [''security''] ls then ''security''
        else if any_label [''performance''] ls then ''performance''
        else if any_label [''documentation'', ''docs''] ls then ''docs''
        else if any_word [''break'', ''breaking'', ''major''] msg ttl then ''breaking''
        else if any_word [''feat'', ''feature'', ''add'', ''new''] msg ttl then ''feature''
        else if any_word [''fix'', ''bug'', ''patch'', ''repair''] msg ttl then ''fix''
        else if any_word [''security'', ''vulnerability'', ''cve''] msg ttl then ''security''
        else if any_word [''perf'', ''performance'', ''optimize''] msg ttl then ''performance''
        else if any_word [''doc'', ''readme'', ''documentation''] msg ttl then ''docs''
        else if list_ex (\<lambda>f. str_in ''test'' (lower f)) files then ''test''
        else if list_ex (\<lambda>f. endswith f ''.md'') files then ''docs''
        else if list_ex (\<lambda>f. startswith f ''.'' \<or> str_in ''config'' (lower f)) files
          then ''config''
        else ''other'')"

text \<open>
  The specification's side of the classification: the nine categories, and the label
  table read top to bottom, the first row with a matching label giving the category.
\<close>

definition categories :: "string list" where
  "categories =
     [''breaking'', ''security'', ''feature'', ''fix'', ''performance'', ''docs'', ''test'',
      ''config'', ''other'']"

definition label_table :: "(string list \<times> string) list" where
  "label_table =
     [([''breaking-change'', ''major''], ''breaking''),
      ([''feature'', ''enhancement''], ''feature''),
      ([''bugfix'', ''fix'', ''bug''], ''fix''),
      ([''security''], ''security''),
      ([''performance''], ''performance''),
      ([''documentation'', ''docs''], ''docs'')]"

fun first_row :: "(string list \<times> string) list \<Rightarrow> string list \<Rightarrow> string option" where
  "first_row [] ls = None"
| "first_row (row # rows) ls =
     (if list_ex (\<lambda>l. l \<in> set (fst row)) ls then Some (snd row) else first_row rows ls)"

definition label_category :: "string list \<Rightarrow> string option" where
  "label_category ls = first_row label_table ls"

definition listed_labels :: "string list" where
  "listed_labels = concat (map fst label_table)"

section \<open>review\_pr.py\<close>

subsection \<open>The world outside the script\<close>

text \<open>
  The library functions and services the reviewer calls are parameters of the model:
  \<^item> \<open>re_match p s\<close>: whether \<open>re.match(p, s)\<close> finds a match, \<open>None\<close> when \<open>p\<close> does
    not compile (\<open>re.error\<close>);
  \<^item> \<open>re_finditer p s\<close>: the spans \<open>(start, end)\<close> of the matches that
    \<open>re.finditer(p, s, re.IGNORECASE)\<close> yields, in order;
  \<^item> \<open>json_loads s\<close>: the outcome of \<open>json.loads(s)\<close>;
  \<^item> \<open>stat_size p\<close>: the size of the file at \<open>p\<close>, \<open>None\<close> when \<open>Path(p).exists()\<close>
    is false;
  \<^item> \<open>read_file p\<close>: the text of the file, \<open>None\<close> when opening or reading raises;
  \<^item> \<open>subprocess_stdout cmd\<close>: the output of the command, \<open>None\<close> when
    \<open>subprocess.run\<close> raises;
  \<^item> \<open>generate_content prompt\<close>: the text of the model's response, or the exception
    that the call or reading \<open>response.text\<close> raises: a \<open>json.JSONDecodeError\<close> raised
    before \<open>response\<close> is bound, or any other exception with its message.
\<close>

datatype loads_result = Loaded json | JSONDecodeError | LoadsRaised string

datatype generation = Response string | DecodeErrorRaised | Raised string

record world =
  re_match :: "string \<Rightarrow> string \<Rightarrow> bool option"
  re_finditer :: "string \<Rightarrow> string \<Rightarrow> (nat \<times> nat) list"
  json_loads :: "string \<Rightarrow> loads_result"
  stat_size :: "string \<Rightarrow> nat option"
  read_file :: "string \<Rightarrow> string option"
  subprocess_stdout :: "string \<Rightarrow> string option"
  generate_content :: "string \<Rightarrow> generation"

subsection \<open>Configuration and startup\<close>

type_synonym environ = "string \<Rightarrow> string option"

text \<open>\<open>not v\<close> for a value read with \<open>os.environ.get\<close>: unset, or set to the empty string.\<close>

definition unset :: "string option \<Rightarrow> bool" where
  "unset v = (case v of None \<Rightarrow> True | Some s \<Rightarrow> s = [])"

definition environ_get_default :: "environ \<Rightarrow> string \<Rightarrow> string \<Rightarrow> string" where
  "environ_get_default env k v0 = (case env k of None \<Rightarrow> v0 | Some v \<Rightarrow> v)"

text \<open>The two keys of the configuration that the reviewer reads after \<open>load_config\<close>.\<close>

record config =
  max_file_size :: int
  ignore_patterns :: "string list"

definition default_config :: config where
  "default_config =
     \<lparr>max_file_size = 50000,
      ignore_patterns = [''.git/*'', ''node_modules/*'', ''*.min.js'', ''*.bundle.js'']\<rparr>"

record security_finding =
  "file" :: string
  line :: nat
  category :: string
  description :: string
  severity :: string

record gitlab_client =
  gitlab_token :: "string option"
  gitlab_url :: string
  project_id :: "string option"
  merge_request_iid :: "string option"

record reviewer = gitlab_client +
  gemini_api_key :: "string option"
  target_branch :: string
  review_results :: "pydict list"
  security_issues :: "security_finding list"
  config :: config

text \<open>
  \<open>SmartCodeReviewer.__init__\<close>: \<open>Inl n\<close> is \<open>sys.exit(n)\<close>, \<open>Inr\<close> the constructed
  object. The second argument is what \<open>load_config\<close> returns; it is called after the
  check of the API key.
\<close>

definition SmartCodeReviewer_init :: "environ \<Rightarrow> config \<Rightarrow> nat + reviewer" where
  "SmartCodeReviewer_init env cfg =
     (if unset (env ''LLM_API_KEY'') then Inl 1
      else Inr
        \<lparr>gitlab_token = env ''GITLAB_PAT'',
         gitlab_url = environ_get_default env ''CI_SERVER_URL'' ''https://gitlab.com'',
         project_id = env ''CI_PROJECT_ID'',
         merge_request_iid = env ''CI_MERGE_REQUEST_IID'',
         gemini_api_key = env ''LLM_API_KEY'',
         target_branch =
           environ_get_default env ''CI_MERGE_REQUEST_TARGET_BRANCH_NAME'' ''main'',
         review_results = [],
         security_issues = [],
         config = cfg\<rparr>)"

text \<open>\<open>IntelligentTagger.__init__\<close> of tag\_mr.py.\<close>

definition IntelligentTagger_init :: "environ \<Rightarrow> nat + gitlab_client" where
  "IntelligentTagger_init env =
     (if \<not> list_all (\<lambda>v. \<not> unset v)
             [env ''GITLAB_PAT'', env ''CI_PROJECT_ID'', env ''CI_MERGE_REQUEST_IID'']
      then Inl 1
      else Inr
        \<lparr>gitlab_token = env ''GITLAB_PAT'',
         gitlab_url = environ_get_default env ''CI_SERVER_URL'' ''https://gitlab.com'',
         project_id = env ''CI_PROJECT_ID'',
         merge_request_iid = env ''CI_MERGE_REQUEST_IID''\<rparr>)"

text \<open>
  The module-level check of scripts/review\_pr.py: \<open>Some n\<close> is \<open>sys.exit(n)\<close>,
  \<open>None\<close> lets the script go on.
\<close>

definition review_script_startup :: "environ \<Rightarrow> nat option" where
  "review_script_startup env =
     (if \<not> list_all (\<lambda>v. \<not> unset v)
             [env ''LLM_API_KEY'', env ''GITLAB_PAT'', env ''CI_PROJECT_ID'',
              env ''CI_MERGE_REQUEST_IID'']
      then Some 1 else None)"

subsection \<open>SmartCodeReviewer.should\_review\_file\<close>

text \<open>\<open>s.split(a)\<close> for a one-character separator.\<close>

fun split_on :: "char \<Rightarrow> string \<Rightarrow> string list" where
  "split_on a [] = [[]]"
| "split_on a (c # s) =
     (if c = a then [] # split_on a s
      else (case split_on a s of [] \<Rightarrow> [[c]] | x # xs \<Rightarrow> (c # x) # xs))"

text \<open>
  \<open>Path(p).name\<close> and \<open>Path(p).suffix\<close> of pathlib on POSIX: the last component that
  is neither empty nor \<open>.\<close>, and its part from the last dot on when that dot is neither
  its first nor its last character.
\<close>

definition path_name :: "string \<Rightarrow> string" where
  "path_name p =
     (case filter (\<lambda>x. x \<noteq> [] \<and> x \<noteq> ''.'') (split_on (CHR ''/'') p) of
        [] \<Rightarrow> []
      | x # xs \<Rightarrow> last (x # xs))"

definition path_suffix :: "string \<Rightarrow> string" where
  "path_suffix p =
     (let name = path_name p in
      case rfind_char (CHR ''.'') name of
        None \<Rightarrow> []
      | Some i \<Rightarrow> if 0 < i \<and> i < length name - 1 then drop i name else [])"

definition code_extensions :: "string list" where
  "code_extensions =
     [''.py'', ''.js'', ''.jsx'', ''.ts'', ''.tsx'', ''.java'', ''.go'', ''.rs'',
      ''.cpp'', ''.c'', ''.h'', ''.cs'', ''.php'', ''.rb'', ''.swift'', ''.kt'']"

text \<open>
  The loop over the ignore patterns: \<open>Inr True\<close> when a pattern matches and the function
  returns \<open>False\<close> there, \<open>Inl ReError\<close> when a pattern reached before any match does not
  compile.
\<close>

fun ignored :: "world \<Rightarrow> string list \<Rightarrow> string \<Rightarrow> py_error + bool" where
  "ignored w [] file_path = Inr False"
| "ignored w (pattern # ps) file_path =
     (case re_match w (replace_char (CHR ''*'') ''.*'' pattern) file_path of
        None \<Rightarrow> Inl ReError
      | Some True \<Rightarrow> Inr True
      | Some False \<Rightarrow> ignored w ps file_path)"

definition too_large :: "world \<Rightarrow> config \<Rightarrow> string \<Rightarrow> bool" where
  "too_large w cfg file_path =
     (case stat_size w file_path of
        None \<Rightarrow> False
      | Some file_size \<Rightarrow> int file_size > max_file_size cfg)"

definition should_review_file :: "world \<Rightarrow> config \<Rightarrow> string \<Rightarrow> py_error + bool" where
  "should_review_file w cfg file_path =
     (case ignored w (ignore_patterns cfg) file_path of
        Inl e \<Rightarrow> Inl e
      | Inr True \<Rightarrow> Inr False
      | Inr False \<Rightarrow>
          if too_large w cfg file_path then Inr False
          else Inr (lower (path_suffix file_path) \<in> set code_extensions))"

subsection \<open>Reading files and diffs\<close>

definition get_file_content :: "world \<Rightarrow> string \<Rightarrow> string option" where
  "get_file_content w file_path = read_file w file_path"

definition get_file_diff :: "world \<Rightarrow> reviewer \<Rightarrow> string \<Rightarrow> string option" where
  "get_file_diff w r file_path =
     (let cmd =
            (if \<not> unset (merge_request_iid r)
             then ''git diff origin/'' @ target_branch r @ ''...HEAD -- '' @ file_path
             else ''git diff HEAD~1 HEAD -- '' @ file_path)
      in case subprocess_stdout w cmd of
           None \<Rightarrow> None
         | Some out \<Rightarrow> if out = [] then None else Some out)"

subsection \<open>SmartCodeReviewer.analyze\_security\_issues\<close>

text \<open>
  The patterns are the source's raw strings; \<open>quotes\<close> is the three-character text
  of a double quote, a backslash and a single quote that each character class holds.
\<close>

definition quotes :: string where
  "quotes = [CHR 0x22, backslash, CHR 0x27]"

definition ws_star :: string where
  "ws_star = [backslash, CHR ''s'', CHR ''*'']"

definition quoted_value :: string where
  "quoted_value = ''['' @ quotes @ ''][^'' @ quotes @ '']+['' @ quotes @ '']''"

definition password_pattern :: string where
  "password_pattern = ''(password|pwd|pass)'' @ ws_star @ ''='' @ ws_star @ quoted_value"

definition security_patterns :: "(string \<times> string list) list" where
  "security_patterns =
     [(''hardcoded_secrets'',
         [password_pattern,
          ''(api_key|apikey|secret|token)'' @ ws_star @ ''='' @ ws_star @ quoted_value,
          ''(SECRET_KEY|API_KEY)'' @ ws_star @ ''='' @ ws_star @ quoted_value]),
      (''sql_injection'',
         [''execute'' @ ws_star @ [backslash] @ ''('' @ ws_star @ ''['' @ quotes @ ''].*%s.*[''
            @ quotes @ '']'',
          ''cursor'' @ [backslash] @ ''.execute'' @ ws_star @ [backslash] @ ''('' @ ws_star
            @ ''['' @ quotes @ ''].*'' @ [backslash] @ ''+.*['' @ quotes @ '']'']),
      (''xss_vulnerability'',
         [''innerHTML'' @ ws_star @ ''='' @ ws_star @ ''.*'' @ [backslash] @ ''+'',
          ''document'' @ [backslash] @ ''.write'' @ ws_star @ [backslash] @ ''('' ])]"

definition line_num :: "string \<Rightarrow> nat \<Rightarrow> nat" where
  "line_num content start = count_list (take start content) newline + 1"

definition issue_of_match ::
  "string \<Rightarrow> string \<Rightarrow> string \<Rightarrow> nat \<times> nat \<Rightarrow> security_finding" where
  "issue_of_match file_path content cat m =
     \<lparr>file = file_path,
      line = line_num content (fst m),
      category = cat,
      description = ''Potential '' @ replace_char (CHR ''_'') '' '' cat @ '' detected'',
      severity = (if cat = ''hardcoded_secrets'' then ''high'' else ''medium'')\<rparr>"

definition analyze_security_issues ::
  "world \<Rightarrow> string \<Rightarrow> string \<Rightarrow> security_finding list" where
  "analyze_security_issues w file_path content =
     concat (map (\<lambda>(cat, patterns).
       concat (map (\<lambda>pattern.
         map (issue_of_match file_path content cat) (re_finditer w pattern content))
         patterns))
       security_patterns)"

subsection \<open>SmartCodeReviewer.determine\_tags\<close>

definition language_tags :: "string \<Rightarrow> string set \<Rightarrow> string set" where
  "language_tags file_path tags =
     (if endswith_any file_path [''.py'', ''.pyi''] then insert ''python'' tags
      else if endswith_any file_path [''.js'', ''.jsx'', ''.ts'', ''.tsx'']
        then insert ''javascript'' tags
      else if endswith file_path ''.java'' then insert ''java'' tags
      else if endswith_any file_path [''.html'', ''.css''] then insert ''frontend'' tags
      else if endswith_any file_path [''.yml'', ''.yaml''] then insert ''config'' tags
      else if endswith file_path ''.md'' then insert ''documentation'' tags
      else tags)"

definition function_tags :: "string \<Rightarrow> string set \<Rightarrow> string set" where
  "function_tags file_path tags =
     (let p = lower file_path;
          t1 = (if str_in ''test'' p then insert ''testing'' tags else tags);
          t2 = (if str_in ''api'' p then insert ''api'' t1 else t1);
          t3 = (if list_ex (\<lambda>word. str_in word p) [''security'', ''auth'', ''login'']
                then insert ''security'' t2 else t2)
      in if list_ex (\<lambda>word. str_in word p) [''db'', ''model'', ''migration'']
         then insert ''database'' t3 else t3)"

text \<open>
  The loop over \<open>file_changes\<close>. \<open>change['file']\<close> raises \<open>KeyError\<close> when the key is
  absent, and \<open>endswith\<close> raises \<open>AttributeError\<close> on a value that is not a str.
\<close>

fun file_tags :: "pydict list \<Rightarrow> string set \<Rightarrow> py_error + string set" where
  "file_tags [] tags = Inr tags"
| "file_tags (change # rest) tags =
     (case map_of change ''file'' of
        None \<Rightarrow> Inl KeyError
      | Some (JStr file_path) \<Rightarrow>
          file_tags rest (function_tags file_path (language_tags file_path tags))
      | Some _ \<Rightarrow> Inl AttributeError)"

definition result_tags :: "reviewer \<Rightarrow> string set \<Rightarrow> string set" where
  "result_tags r tags =
     (let t1 = (if py_any (map (\<lambda>x. dict_get x ''has_breaking_changes'') (review_results r))
                then insert ''breaking-change'' tags else tags);
          t2 = (if py_any (map (\<lambda>x. dict_get x ''performance_impact'') (review_results r))
                then insert ''performance'' t1 else t1)
      in if security_issues r \<noteq> [] then insert ''security-review-needed'' t2 else t2)"

definition determine_tags :: "reviewer \<Rightarrow> pydict list \<Rightarrow> py_error + string list" where
  "determine_tags r file_changes =
     (case file_tags file_changes {} of
        Inl e \<Rightarrow> Inl e
      | Inr tags \<Rightarrow> Inr (sorted_list_of_set (result_tags r tags)))"

subsection \<open>SmartCodeReviewer.create\_review\_prompt\<close>

definition prompt_lines :: "string \<Rightarrow> string \<Rightarrow> string \<Rightarrow> string \<Rightarrow> string list" where
  \<open>prompt_lines language file_path diff content =
     [''As an expert code reviewer, analyze this '' @ language
        @ '' code change and provide constructive feedback.'',
      [],
      ''FILE: '' @ file_path,
      ''LANGUAGE: '' @ language,
      [],
      ''DIFF:'',
      ''```diff'',
      diff,
      ''```'',
      [],
      ''FULL FILE CONTENT (for context):'',
      ''```'' @ language,
      take 3000 content @ (if length content > 3000 then ''...'' else []),
      ''```'',
      [],
      ''Please analyze and provide feedback on:'',
      ''1. **Code Quality**: Style, readability, maintainability'',
      ''2. **Security**: Potential vulnerabilities or security concerns'',
      ''3. **Performance**: Efficiency and optimization opportunities'',
      ''4. **Best Practices**: Language-specific conventions and patterns'',
      ''5. **Error Handling**: Robustness and edge case handling'',
      ''6. **Testing**: Testability and test coverage considerations'',
      [],
      ''For each issue found, provide:'',
      ''- Specific line numbers if applicable'',
      ''- Clear description of the issue'',
      ''- Suggested improvement'',
      ''- Severity (high/medium/low)'',
      [],
      ''Also identify:'',
      ''- Whether this introduces breaking changes'',
      ''- Performance impact (positive/negative/neutral)'',
      ''- Required follow-up actions'',
      [],
      ''Respond in JSON format:'',
      ''{'',
      ''  "summary": "Overall assessment summary",'',
      ''  "issues": ['',
      ''    {'',
      ''      "line": 123,'',
      ''      "severity": "medium",'',
      ''      "category": "performance",'',
      ''      "description": "Issue description",'',
      ''      "suggestion": "Specific improvement suggestion"'',
      ''    }'',
      ''  ],'',
      ''  "positive_aspects": ["List of good practices found"],'',
      ''  "has_breaking_changes": false,'',
      ''  "performance_impact": "neutral",'',
      ''  "follow_up_actions": ["List of recommended actions"]'',
      ''}'']\<close>

definition create_review_prompt :: "string \<Rightarrow> string \<Rightarrow> string \<Rightarrow> string" where
  "create_review_prompt file_path diff content =
     (let language = lstrip_char (CHR ''.'') (path_suffix file_path)
      in newline # concat (map (\<lambda>l. l @ [newline])
                             (prompt_lines language file_path diff content)))"

subsection \<open>SmartCodeReviewer.review\_file\<close>

definition finding_json :: "security_finding \<Rightarrow> json" where
  "finding_json f =
     JDict [(''file'', JStr (file f)), (''line'', JInt (int (line f))),
            (''category'', JStr (category f)), (''description'', JStr (description f)),
            (''severity'', JStr (severity f))]"

text \<open>
  \<open>str(e)\<close> of the \<open>TypeError\<close> that \<open>review_data["file"] = file_path\<close> raises when the
  reply parses to something that is not a dict.
\<close>

definition no_item_assignment :: "string \<Rightarrow> string" where
  "no_item_assignment type_name =
     [CHR 0x27] @ type_name @ [CHR 0x27] @ '' object does not support item assignment''"

fun item_assignment_message :: "json \<Rightarrow> string" where
  "item_assignment_message (JList xs) = ''list indices must be integers or slices, not str''"
| "item_assignment_message (JStr s) = no_item_assignment ''str''"
| "item_assignment_message (JInt i) = no_item_assignment ''int''"
| "item_assignment_message (JFloat q) = no_item_assignment ''float''"
| "item_assignment_message (JBool b) = no_item_assignment ''bool''"
| "item_assignment_message JNull = no_item_assignment ''NoneType''"
| "item_assignment_message (JDict d) = []"

definition error_result :: "string \<Rightarrow> string \<Rightarrow> pydict" where
  "error_result file_path msg = [(''file'', JStr file_path), (''error'', JStr msg)]"

text \<open>The body of the \<open>try\<close> block with its two handlers.\<close>

definition ai_review ::
  "world \<Rightarrow> string \<Rightarrow> string \<Rightarrow> string \<Rightarrow> security_finding list \<Rightarrow> pydict" where
  "ai_review w file_path diff content found =
     (case generate_content w (create_review_prompt file_path diff content) of
        Raised msg \<Rightarrow> error_result file_path msg
      | DecodeErrorRaised \<Rightarrow>
          [(''file'', JStr file_path),
           (''error'', JStr ''Failed to parse AI response''),
           (''raw_response'', JStr ''No response'')]
      | Response text \<Rightarrow>
          (case json_loads w text of
             JSONDecodeError \<Rightarrow>
               [(''file'', JStr file_path),
                (''error'', JStr ''Failed to parse AI response''),
                (''raw_response'', JStr text)]
           | LoadsRaised msg \<Rightarrow> error_result file_path msg
           | Loaded v \<Rightarrow>
               (case v of
                  JDict review_data \<Rightarrow>
                    dict_set (dict_set review_data ''file'' (JStr file_path))
                      ''security_issues'' (JList (map finding_json found))
                | _ \<Rightarrow> error_result file_path (item_assignment_message v))))"

text \<open>
  \<open>review_file\<close> returns the result for the file and the reviewer, whose
  \<open>security_issues\<close> it extends.
\<close>

definition review_file :: "world \<Rightarrow> reviewer \<Rightarrow> string \<Rightarrow> pydict \<times> reviewer" where
  "review_file w r file_path =
     (case get_file_content w file_path of
        None \<Rightarrow> (error_result file_path ''Could not read file'', r)
      | Some content \<Rightarrow>
          if content = [] then (error_result file_path ''Could not read file'', r)
          else
            (case get_file_diff w r file_path of
               None \<Rightarrow> (error_result file_path ''No changes detected'', r)
             | Some diff \<Rightarrow>
                 (let found = analyze_security_issues w file_path content;
                      r' = r\<lparr>security_issues := security_issues r @ found\<rparr>
                  in (ai_review w file_path diff content found, r'))))"

subsection \<open>SmartCodeReviewer.run\<close>


subsection \<open>SmartCodeReviewer.create\_summary\_comment: the severity marker\<close>

text \<open>
  The marker chosen for an issue of the comment: the entry of the table for
  \<open>issue.get('severity', 'low')\<close>, the white circle for a value that is no key of the
  table. A list or a dict as the value is unhashable and raises \<open>TypeError\<close>, and an issue
  that is not a dict has no \<open>get\<close>.
\<close>

datatype marker = Red_Circle | Yellow_Circle | Green_Circle | White_Circle

definition marker_of :: "json \<Rightarrow> py_error + marker" where
  "marker_of v =
     (case v of
        JList xs \<Rightarrow> Inl TypeError
      | JDict d \<Rightarrow> Inl TypeError
      | _ \<Rightarrow> Inr (if v = JStr ''high'' then Red_Circle
                  else if v = JStr ''medium'' then Yellow_Circle
                  else if v = JStr ''low'' then Green_Circle
                  else White_Circle))"

fun severity_emoji :: "json \<Rightarrow> py_error + marker" where
  "severity_emoji (JDict issue) =
     marker_of (dict_get_default issue ''severity'' (JStr ''low''))"
| "severity_emoji _ = Inl AttributeError"

subsection \<open>SmartCodeReviewer.save\_results\<close>

record aggregate_status =
  total_files :: nat
  total_issues :: nat
  high_severity_issues :: nat
  security_issue_count :: nat
  overall_status :: string

fun sum_results :: "(py_error + nat) list \<Rightarrow> py_error + nat" where
  "sum_results [] = Inr 0"
| "sum_results (x # xs) =
     (case x of
        Inl e \<Rightarrow> Inl e
      | Inr n \<Rightarrow> (case sum_results xs of Inl e \<Rightarrow> Inl e | Inr m \<Rightarrow> Inr (n + m)))"

definition issues_of :: "pydict \<Rightarrow> json" where
  "issues_of x = dict_get_default x ''issues'' (JList [])"

fun high_issue :: "json \<Rightarrow> py_error + nat" where
  "high_issue (JDict issue) = Inr (if dict_get issue ''severity'' = JStr ''high'' then 1 else 0)"
| "high_issue _ = Inl AttributeError"

definition high_issues :: "pydict \<Rightarrow> py_error + nat" where
  "high_issues x =
     (case py_iter (issues_of x) of
        Inl e \<Rightarrow> Inl e
      | Inr issues \<Rightarrow> sum_results (map high_issue issues))"

text \<open>
  The \<open>status\<close> dict of \<open>save_results\<close>, its entries evaluated in the order written:
  the key \<open>security_issues\<close> is the field \<open>security_issue_count\<close>.
\<close>

definition review_status :: "reviewer \<Rightarrow> py_error + aggregate_status" where
  "review_status r =
     (case sum_results (map (\<lambda>x. py_len (issues_of x)) (review_results r)) of
        Inl e \<Rightarrow> Inl e
      | Inr issue_count \<Rightarrow>
          (case sum_results (map high_issues (review_results r)) of
             Inl e \<Rightarrow> Inl e
           | Inr high \<Rightarrow>
               Inr \<lparr>total_files = length (review_results r),
                    total_issues = issue_count,
                    high_severity_issues = high,
                    security_issue_count = length (security_issues r),
                    overall_status =
                      (if security_issues r \<noteq> []
                          \<or> py_any (map (\<lambda>x. dict_get x ''has_breaking_changes'')
                                       (review_results r))
                       then ''needs_attention'' else ''approved'')\<rparr>))"

text \<open>The four files that \<open>save_results\<close> writes, in the order it writes them.\<close>

record saved_files =
  ai_review_status :: aggregate_status
  review_summary :: "pydict list"
  security_issues_json :: "security_finding list"
  ai_tags :: "string list"

definition save_results :: "reviewer \<Rightarrow> py_error + saved_files" where
  "save_results r =
     (case review_status r of
        Inl e \<Rightarrow> Inl e
      | Inr status \<Rightarrow>
          (case determine_tags r (review_results r) of
             Inl e \<Rightarrow> Inl e
           | Inr tags \<Rightarrow>
               Inr \<lparr>ai_review_status = status,
                    review_summary = review_results r,
                    security_issues_json = security_issues r,
                    ai_tags = tags\<rparr>))"

text \<open>
  The shape of a ReviewResult of the specification's data model, as far as
  \<open>save_results\<close> reads it: \<open>issues\<close>, when present, is a list of dicts, and
  \<open>has_breaking_changes\<close>, when present, is a bool.
\<close>

fun is_dict :: "json \<Rightarrow> bool" where
  "is_dict (JDict d) = True"
| "is_dict _ = False"

definition well_formed_result :: "pydict \<Rightarrow> bool" where
  "well_formed_result x =
     ((case map_of x ''issues'' of
         None \<Rightarrow> True
       | Some (JList issues) \<Rightarrow> list_all is_dict issues
       | Some _ \<Rightarrow> False)
      \<and> (case map_of x ''has_breaking_changes'' of
            None \<Rightarrow> True
          | Some (JBool b) \<Rightarrow> True
          | Some _ \<Rightarrow> False))"

section \<open>tag\_mr.py\<close>

subsection \<open>IntelligentTagger.enhance\_tags\_with\_context\<close>

text \<open>
  \<open>review_status\<close> is the dict read from the status file. A comparison of a value
  that is no number with \<open>0\<close> raises \<open>TypeError\<close>; \<open>==\<close> never raises. The order in which
  \<open>list(set(...))\<close> yields the elements is fixed by the hashes of the strings, which
  differ from one interpreter run to the next; it is the parameter \<open>set_order\<close>.
\<close>

definition status_get :: "pydict \<Rightarrow> string \<Rightarrow> json" where
  "status_get status k = dict_get_default status k (JInt 0)"

definition greater_than :: "json \<Rightarrow> rat \<Rightarrow> py_error + bool" where
  "greater_than v n = (case py_number v of Inl e \<Rightarrow> Inl e | Inr q \<Rightarrow> Inr (q > n))"

definition equals_zero :: "json \<Rightarrow> bool" where
  "equals_zero v = (case py_number v of Inl e \<Rightarrow> False | Inr q \<Rightarrow> q = 0)"

definition enhanced_tags :: "string list \<Rightarrow> pydict \<Rightarrow> py_error + string list" where
  "enhanced_tags tags status =
     (case greater_than (status_get status ''security_issues'') 0 of
        Inl e \<Rightarrow> Inl e
      | Inr sec \<Rightarrow>
          (let t1 = (if sec then tags @ [''security-review-needed''] else tags) in
           case greater_than (status_get status ''high_severity_issues'') 0 of
             Inl e \<Rightarrow> Inl e
           | Inr high \<Rightarrow>
               (let t2 = (if high then t1 @ [''high-priority'']
                          else if equals_zero (status_get status ''total_issues'')
                            then t1 @ [''ready-for-review'']
                          else t1);
                    t3 = t2 @ [''ai-reviewed''];
                    issue_count = status_get status ''total_issues''
                in case greater_than issue_count 10 of
                     Inl e \<Rightarrow> Inl e
                   | Inr many \<Rightarrow>
                       Inr (if many then t3 @ [''needs-attention'']
                            else if equals_zero issue_count then t3 @ [''clean-code'']
                            else t3))))"

definition enhance_tags_with_context ::
  "(string set \<Rightarrow> string list) \<Rightarrow> string list \<Rightarrow> pydict \<Rightarrow> py_error + string list" where
  "enhance_tags_with_context set_order tags status =
     (case enhanced_tags tags status of
        Inl e \<Rightarrow> Inl e
      | Inr ts \<Rightarrow> Inr (set_order (set ts)))"

text \<open>What every iteration order of a set satisfies: each element once, no other.\<close>

definition iteration_order :: "(string set \<Rightarrow> string list) \<Rightarrow> bool" where
  "iteration_order set_order =
     (\<forall>S. finite S \<longrightarrow> set (set_order S) = S \<and> distinct (set_order S))"

text \<open>Two iteration orders: ascending and descending.\<close>

definition ascending :: "string set \<Rightarrow> string list" where
  "ascending S = sorted_list_of_set S"

definition descending :: "string set \<Rightarrow> string list" where
  "descending S = rev (sorted_list_of_set S)"

subsection \<open>IntelligentTagger.create\_label\_if\_needed\<close>

text \<open>
  The GitLab host is a state \<open>'h\<close> with two requests, each answering and moving to a new
  state: \<open>list_labels\<close> is the GET of the project's labels (the status code and the
  names in the body, or an exception of the request or of decoding the body), and
  \<open>post_label name color\<close> is the POST that creates a label.
\<close>

datatype get_reply = GetRaised | GetStatus nat "string list"

datatype post_reply = PostRaised | PostStatus nat

record 'h host =
  list_labels :: "'h \<Rightarrow> get_reply \<times> 'h"
  post_label :: "string \<Rightarrow> string \<Rightarrow> 'h \<Rightarrow> post_reply \<times> 'h"

definition get_existing_labels :: "'h host \<Rightarrow> 'h \<Rightarrow> string list \<times> 'h" where
  "get_existing_labels gl h =
     (case list_labels gl h of
        (GetStatus code names, h') \<Rightarrow> (if code = 200 then names else [], h')
      | (GetRaised, h') \<Rightarrow> ([], h'))"

text \<open>
  The result is the returned bool, the number of creation requests sent, and the state
  of the host afterwards.
\<close>

definition create_label_if_needed ::
  "'h host \<Rightarrow> string \<Rightarrow> string \<Rightarrow> 'h \<Rightarrow> bool \<times> nat \<times> 'h" where
  "create_label_if_needed gl label_name color h =
     (case get_existing_labels gl h of
        (existing_labels, h1) \<Rightarrow>
          if label_name \<in> set existing_labels then (True, 0, h1)
          else
            (case post_label gl label_name color h1 of
               (PostStatus code, h2) \<Rightarrow> (code = 201, 1, h2)
             | (PostRaised, h2) \<Rightarrow> (False, 1, h2)))"

text \<open>
  The loop of \<open>IntelligentTagger.run\<close> over the final tags: the labels for which
  \<open>create_label_if_needed\<close> returned true, and the number of creation requests.
\<close>

fun create_labels ::
  "'h host \<Rightarrow> (string \<Rightarrow> string) \<Rightarrow> string list \<Rightarrow> 'h \<Rightarrow> string list \<times> nat \<times> 'h" where
  "create_labels gl color_of [] h = ([], 0, h)"
| "create_labels gl color_of (tag # tags) h =
     (case create_label_if_needed gl tag (color_of tag) h of
        (ok, n, h1) \<Rightarrow>
          (case create_labels gl color_of tags h1 of
             (created, m, h2) \<Rightarrow> ((if ok then tag # created else created), n + m, h2)))"

text \<open>
  A host keeps its labels when a label it has created with status 201, and every
  label it has listed, is in its later listings.
\<close>

definition keeps_labels :: "'h host \<Rightarrow> bool" where
  "keeps_labels gl =
     ((\<forall>name color h h'. post_label gl name color h = (PostStatus 201, h')
          \<longrightarrow> name \<in> set (fst (get_existing_labels gl h')))
      \<and> (\<forall>h names h'. get_existing_labels gl h = (names, h')
          \<longrightarrow> set names \<subseteq> set (fst (get_existing_labels gl h'))))"

text \<open>
  A host that keeps the list of its labels and answers every request: the listing with
  200 and the names, a creation with 409 for a name it has and with 201 otherwise.
\<close>

definition label_store :: "string list host" where
  "label_store =
     \<lparr>list_labels = (\<lambda>h. (GetStatus 200 h, h)),
      post_label = (\<lambda>name color h.
        if name \<in> set h then (PostStatus 409, h) else (PostStatus 201, h @ [name]))\<rparr>"

text \<open>A host that refuses every creation with status 500.\<close>

definition refusing_store :: "string list host" where
  "refusing_store = label_store\<lparr>post_label := (\<lambda>name color h. (PostStatus 500, h))\<rparr>"

section \<open>Example inputs\<close>

definition quiet_world :: world where
  "quiet_world =
     \<lparr>re_match = (\<lambda>p s. Some False),
      re_finditer = (\<lambda>p s. []),
      json_loads = (\<lambda>s. JSONDecodeError),
      stat_size = (\<lambda>p. None),
      read_file = (\<lambda>p. None),
      subprocess_stdout = (\<lambda>c. None),
      generate_content = (\<lambda>p. Raised ''unavailable'')\<rparr>"

definition only_llm_key :: environ where
  "only_llm_key = Map.empty(''LLM_API_KEY'' \<mapsto> ''secret'')"

definition full_environ :: environ where
  "full_environ =
     Map.empty(''LLM_API_KEY'' \<mapsto> ''secret'', ''GITLAB_PAT'' \<mapsto> ''token'',
       ''CI_PROJECT_ID'' \<mapsto> ''42'', ''CI_MERGE_REQUEST_IID'' \<mapsto> ''7'')"

definition password_content :: string where
  "password_content =
     ''x = 1'' @ [newline] @ ''password = '' @ [CHR 0x22] @ ''x'' @ [CHR 0x22]"

text \<open>
  The one match of the password pattern in \<open>password_content\<close> starts at offset 6, after
  the newline, and ends at offset 20.
\<close>

definition password_world :: world where
  "password_world =
     quiet_world\<lparr>re_finditer :=
       (\<lambda>p s. if p = password_pattern \<and> s = password_content then [(6, 20)] else [])\<rparr>"

definition fresh_reviewer :: reviewer where
  "fresh_reviewer =
     \<lparr>gitlab_token = None, gitlab_url = ''https://gitlab.com'', project_id = None,
      merge_request_iid = None, gemini_api_key = Some ''secret'', target_branch = ''main'',
      review_results = [], security_issues = [], config = default_config\<rparr>"

text \<open>
  A world in which every file is readable and changed, and the model answers with a
  sentence that is no JSON.
\<close>

definition garbled_world :: world where
  "garbled_world =
     quiet_world\<lparr>read_file := (\<lambda>p. Some ''x = 1''),
                 subprocess_stdout := (\<lambda>c. Some ''+x = 1''),
                 generate_content := (\<lambda>p. Response ''Sorry, I cannot review this.'')\<rparr>"

text \<open>
  A world in which the model answers with a JSON object whose only issue has a
  negative line and a severity outside high, medium and low.
\<close>

definition odd_issue :: pydict where
  "odd_issue =
     [(''line'', JInt (- 1)), (''severity'', JStr ''critical''),
      (''description'', JStr ''odd'')]"

definition odd_reply :: json where
  "odd_reply = JDict [(''summary'', JStr ''ok''), (''issues'', JList [JDict odd_issue])]"

definition odd_reply_text :: string where
  \<open>odd_reply_text =
     ''{"summary": "ok", "issues": [{"line": -1, "severity": "critical", "description": "odd"}]}''\<close>

definition odd_issue_world :: world where
  "odd_issue_world =
     garbled_world\<lparr>generate_content := (\<lambda>p. Response odd_reply_text),
                   json_loads := (\<lambda>s. if s = odd_reply_text then Loaded odd_reply
                                       else JSONDecodeError)\<rparr>"

text \<open>A reviewer after two files: one reviewed, one without changes.\<close>

definition reviewed_two :: reviewer where
  "reviewed_two =
     \<lparr>gitlab_token = None, gitlab_url = ''https://gitlab.com'', project_id = None,
      merge_request_iid = None, gemini_api_key = Some ''secret'', target_branch = ''main'',
      review_results =
        [[(''summary'', JStr ''fine''),
          (''issues'', JList [JDict [(''line'', JInt 3), (''severity'', JStr ''high'')]]),
          (''has_breaking_changes'', JBool False),
          (''performance_impact'', JStr ''neutral''),
          (''file'', JStr ''app.py''),
          (''security_issues'', JList [])],
         [(''file'', JStr ''lib.py''), (''error'', JStr ''No changes detected'')]],
      security_issues = [],
      config = default_config\<rparr>"

text \<open>A reviewer after one file whose review reports a neutral performance impact.\<close>

definition neutral_reviewer :: reviewer where
  "neutral_reviewer =
     fresh_reviewer\<lparr>review_results :=
       [[(''summary'', JStr ''fine''), (''issues'', JList []),
         (''has_breaking_changes'', JBool False),
         (''performance_impact'', JStr ''neutral''),
         (''file'', JStr ''app.py''), (''security_issues'', JList [])]]\<rparr>"

text \<open>The status file of a review with five issues, none of high severity.\<close>

definition five_issue_status :: pydict where
  "five_issue_status =
     [(''total_files'', JInt 1), (''total_issues'', JInt 5),
      (''high_severity_issues'', JInt 0), (''security_issues'', JInt 0),
      (''overall_status'', JStr ''approved'')]"

text \<open>A reviewer after one file whose review reports a breaking change.\<close>

definition breaking_reviewer :: reviewer where
  "breaking_reviewer =
     fresh_reviewer\<lparr>review_results :=
       [[(''summary'', JStr ''renames the endpoint''), (''issues'', JList []),
         (''has_breaking_changes'', JBool True),
         (''file'', JStr ''api.py''), (''security_issues'', JList [])]]\<rparr>"


section \<open>Classification of merge commits\<close>

lemma label_category_chain:
  "label_category ls =
     (if any_label [''breaking-change'', ''major''] ls then Some ''breaking''
      else if any_label [''feature'', ''enhancement''] ls then Some ''feature''
      else if any_label [''bugfix'', ''fix'', ''bug''] ls then Some ''fix''
      else if any_label [''security''] ls then Some ''security''
      else if any_label [''performance''] ls then Some ''performance''
      else if any_label [''documentation'', ''docs''] ls then Some ''docs''
      else None)"
  by (simp add: label_category_def label_table_def any_label_def)

lemma label_category_wins:
  "label_category (get_list (labels mi)) = Some c \<Longrightarrow> categorize_changes mi = c"
  unfolding label_category_chain categorize_changes_def Let_def
  by (simp only: if_True if_False option.inject option.distinct simp_thms split: if_split_asm)

lemma listed_label_has_category:
  "list_ex (\<lambda>l. l \<in> set listed_labels) ls \<Longrightarrow> label_category ls \<noteq> None"
  by (auto simp add: label_category_def label_table_def listed_labels_def list_ex_iff)

lemma categories_distinct: "distinct categories \<and> length categories = 9"
  by (simp add: categories_def)

lemma categorize_changes_in_categories:
  "categorize_changes mi \<in> set categories"
  unfolding categorize_changes_def Let_def
  by (simp add: categories_def)

text \<open>
  C2. \<open>categorize_changes\<close> is total and returns one of the nine categories, for any
  labels, commit message, title and file list. When a label of the table is among the
  labels, the table gives a category, and that category is the result whatever the
  commit message, the title and the changed files are.
\<close>

theorem categorize_changes_total_label_priority:
  "categorize_changes mi \<in> set categories
   \<and> distinct categories \<and> length categories = 9
   \<and> (\<forall>c. label_category (get_list (labels mi)) = Some c \<longrightarrow>
          categorize_changes (mi\<lparr>commit_message := m, title := t, files_changed := fs\<rparr>) = c)
   \<and> (list_ex (\<lambda>l. l \<in> set listed_labels) (get_list (labels mi)) \<longrightarrow>
          label_category (get_list (labels mi)) \<noteq> None)"
proof -
  have "categorize_changes (mi\<lparr>commit_message := m, title := t, files_changed := fs\<rparr>) = c"
    if "label_category (get_list (labels mi)) = Some c" for c
    using label_category_wins
            [of "mi\<lparr>commit_message := m, title := t, files_changed := fs\<rparr>" c] that
    by simp
  then show ?thesis
    using categorize_changes_in_categories [of mi] categories_distinct
      listed_label_has_category [of "get_list (labels mi)"]
    by blast
qed

theorem categorize_changes_total_label_priority_witness:
  "list_ex (\<lambda>l. l \<in> set listed_labels) [''docs'', ''bug'']
   \<and> label_category [''docs'', ''bug''] = Some ''fix''
   \<and> categorize_changes
        \<lparr>files_changed = Some [''tests/test_api.py''], labels = Some [''docs'', ''bug''],
         commit_message = Some ''Add new feature'', title = Some ''BREAKING: rewrite''\<rparr>
       = ''fix''"
proof -
  have h: "label_category [''docs'', ''bug''] = Some ''fix''"
    by (simp add: label_category_def label_table_def)
  have l: "list_ex (\<lambda>l. l \<in> set listed_labels) [''docs'', ''bug'']"
    by (simp add: listed_labels_def label_table_def)
  show ?thesis
    using h l
      categorize_changes_total_label_priority
        [where mi = "\<lparr>files_changed = None, labels = Some [''docs'', ''bug''],
                      commit_message = None, title = None\<rparr>"
           and m = "Some ''Add new feature''" and t = "Some ''BREAKING: rewrite''"
           and fs = "Some [''tests/test_api.py'']"]
    by (simp add: get_list_def)
qed

section \<open>The file filter\<close>

text \<open>
  C10. For a path that does not exist when the filter runs, \<open>should_review_file\<close> makes
  no size check: its answer is that of the ignore patterns and the extension allowlist
  alone, it is the same for every \<open>max_file_size\<close>, and the path is accepted whenever no
  ignore pattern matches and the lowered suffix is a code extension.
\<close>

theorem should_review_file_missing_path:
  assumes "stat_size w file_path = None"
  shows "should_review_file w cfg file_path =
           (case ignored w (ignore_patterns cfg) file_path of
              Inl e \<Rightarrow> Inl e
            | Inr b \<Rightarrow> Inr (\<not> b \<and> lower (path_suffix file_path) \<in> set code_extensions))
         \<and> should_review_file w (cfg\<lparr>max_file_size := n\<rparr>) file_path =
             should_review_file w cfg file_path
         \<and> (ignored w (ignore_patterns cfg) file_path = Inr False
              \<and> lower (path_suffix file_path) \<in> set code_extensions
             \<longrightarrow> should_review_file w (cfg\<lparr>max_file_size := n\<rparr>) file_path = Inr True)"
  using assms
  by (simp add: should_review_file_def too_large_def split: sum.splits bool.splits)

theorem should_review_file_missing_path_witness:
  "stat_size quiet_world ''src/New_Module.PY'' = None
   \<and> ignored quiet_world (ignore_patterns default_config) ''src/New_Module.PY'' = Inr False
   \<and> lower (path_suffix ''src/New_Module.PY'') \<in> set code_extensions
   \<and> should_review_file quiet_world (default_config\<lparr>max_file_size := 0\<rparr>)
        ''src/New_Module.PY'' = Inr True"
proof -
  have a: "stat_size quiet_world ''src/New_Module.PY'' = None"
    by (simp add: quiet_world_def)
  have b: "ignored quiet_world (ignore_patterns default_config) ''src/New_Module.PY''
           = Inr False"
    by (simp add: quiet_world_def default_config_def)
  have c: "lower (path_suffix ''src/New_Module.PY'') \<in> set code_extensions"
    by code_simp
  show ?thesis
    using a b c
      should_review_file_missing_path
        [where w = quiet_world and file_path = "''src/New_Module.PY''"
           and cfg = default_config and n = 0]
    by blast
qed

section \<open>The security scanner\<close>

lemma finding_of_match:
  assumes "(cat, patterns) \<in> set security_patterns" "pattern \<in> set patterns"
    "m \<in> set (re_finditer w pattern content)"
  shows "issue_of_match file_path content cat m
         \<in> set (analyze_security_issues w file_path content)"
  using assms unfolding analyze_security_issues_def
  by (auto intro!: bexI [of _ "(cat, patterns)"] bexI [of _ pattern])

lemma findings_severity:
  assumes "f \<in> set (analyze_security_issues w file_path content)"
  shows "severity f = (if category f = ''hardcoded_secrets'' then ''high'' else ''medium'')"
  using assms unfolding analyze_security_issues_def
  by (auto simp add: issue_of_match_def)

lemma password_pattern_listed:
  "\<exists>patterns. (''hardcoded_secrets'', patterns) \<in> set security_patterns
      \<and> password_pattern \<in> set patterns"
  by (simp add: security_patterns_def)

text \<open>
  C5. For every match of the password pattern in the content, whatever the regular
  expression engine reports as matches, the scanner returns a finding for the file with
  the category of hard-coded secrets (the key \<open>hardcoded_secrets\<close> of the source's
  table), severity \<open>high\<close>, and as line the number of newlines before the start of the
  match plus one. Every finding of another category has severity \<open>medium\<close>.
\<close>

theorem analyze_security_issues_password:
  "(\<forall>m \<in> set (re_finditer w password_pattern content).
      \<exists>f \<in> set (analyze_security_issues w file_path content).
        file f = file_path \<and> category f = ''hardcoded_secrets'' \<and> severity f = ''high''
        \<and> line f = count_list (take (fst m) content) newline + 1)
   \<and> (\<forall>f \<in> set (analyze_security_issues w file_path content).
        category f \<noteq> ''hardcoded_secrets'' \<longrightarrow> severity f = ''medium'')"
proof (intro conjI ballI impI)
  fix m assume m: "m \<in> set (re_finditer w password_pattern content)"
  obtain patterns where p: "(''hardcoded_secrets'', patterns) \<in> set security_patterns"
    "password_pattern \<in> set patterns"
    using password_pattern_listed by blast
  have "issue_of_match file_path content ''hardcoded_secrets'' m
        \<in> set (analyze_security_issues w file_path content)"
    using finding_of_match [OF p m] .
  then show "\<exists>f \<in> set (analyze_security_issues w file_path content).
        file f = file_path \<and> category f = ''hardcoded_secrets'' \<and> severity f = ''high''
        \<and> line f = count_list (take (fst m) content) newline + 1"
    by (rule bexI [rotated]) (simp add: issue_of_match_def line_num_def)
next
  fix f assume "f \<in> set (analyze_security_issues w file_path content)"
    "category f \<noteq> ''hardcoded_secrets''"
  then show "severity f = ''medium''"
    using findings_severity by simp
qed

theorem analyze_security_issues_password_witness:
  "(6, 20) \<in> set (re_finditer password_world password_pattern password_content)
   \<and> count_list (take 6 password_content) newline + 1 = 2
   \<and> (\<exists>f \<in> set (analyze_security_issues password_world ''app.py'' password_content).
        file f = ''app.py'' \<and> category f = ''hardcoded_secrets'' \<and> severity f = ''high''
        \<and> line f = 2)"
proof -
  have a: "(6, 20) \<in> set (re_finditer password_world password_pattern password_content)"
    by (simp add: password_world_def quiet_world_def)
  have b: "count_list (take 6 password_content) newline + 1 = 2"
    by code_simp
  show ?thesis
    using a b
      analyze_security_issues_password
        [where w = password_world and content = password_content
           and file_path = "''app.py''"]
    by fastforce
qed

section \<open>Startup\<close>

text \<open>
  C9, as stated, fails: with the API key set and the GitLab token, the project
  identifier and the merge request identifier all missing, the constructor of
  \<open>SmartCodeReviewer\<close> does not exit.
\<close>

theorem missing_gitlab_settings_not_fatal:
  "unset (only_llm_key ''GITLAB_PAT'') \<and> unset (only_llm_key ''CI_PROJECT_ID'')
   \<and> unset (only_llm_key ''CI_MERGE_REQUEST_IID'')
   \<and> \<not> isl (SmartCodeReviewer_init only_llm_key default_config)"
  by (simp add: only_llm_key_def unset_def SmartCodeReviewer_init_def)

text \<open>
  C9, amended. Each program exits at startup, with code 1 and before any other work,
  exactly when a value that it requires is unset or empty: \<open>SmartCodeReviewer\<close> requires
  the API key only; \<open>IntelligentTagger\<close> requires the GitLab token, the project
  identifier and the merge request identifier; scripts/review\_pr.py requires all four.
\<close>

theorem startup_exit_conditions:
  "(isl (SmartCodeReviewer_init env cfg) \<longleftrightarrow> unset (env ''LLM_API_KEY''))
   \<and> (isl (SmartCodeReviewer_init env cfg) \<longrightarrow> SmartCodeReviewer_init env cfg = Inl 1)
   \<and> (isl (IntelligentTagger_init env) \<longleftrightarrow>
        unset (env ''GITLAB_PAT'') \<or> unset (env ''CI_PROJECT_ID'')
        \<or> unset (env ''CI_MERGE_REQUEST_IID''))
   \<and> (isl (IntelligentTagger_init env) \<longrightarrow> IntelligentTagger_init env = Inl 1)
   \<and> (review_script_startup env = Some 1 \<longleftrightarrow>
        unset (env ''LLM_API_KEY'') \<or> unset (env ''GITLAB_PAT'')
        \<or> unset (env ''CI_PROJECT_ID'') \<or> unset (env ''CI_MERGE_REQUEST_IID''))
   \<and> (review_script_startup env \<noteq> Some 1 \<longrightarrow> review_script_startup env = None)"
  by (auto simp add: SmartCodeReviewer_init_def IntelligentTagger_init_def
        review_script_startup_def)

theorem startup_exit_conditions_witness:
  "unset (Map.empty ''LLM_API_KEY'')
   \<and> SmartCodeReviewer_init Map.empty default_config = Inl 1
   \<and> unset (only_llm_key ''GITLAB_PAT'')
   \<and> IntelligentTagger_init only_llm_key = Inl 1
   \<and> review_script_startup only_llm_key = Some 1"
proof -
  have a: "unset (Map.empty ''LLM_API_KEY'')" by (simp add: unset_def)
  have b: "unset (only_llm_key ''GITLAB_PAT'')" by (simp add: unset_def only_llm_key_def)
  show ?thesis
    using a b startup_exit_conditions [of Map.empty default_config]
      startup_exit_conditions [of only_llm_key default_config]
    by blast
qed

section \<open>The aggregate status\<close>

lemma sum_results_all_Inr:
  assumes "\<forall>x \<in> set xs. \<exists>n. f x = Inr n"
  shows "\<exists>n. sum_results (map f xs) = Inr n"
  using assms by (induction xs) auto

lemma well_formed_len:
  assumes "well_formed_result x"
  shows "\<exists>n. py_len (issues_of x) = Inr n"
  using assms
  by (auto simp add: well_formed_result_def issues_of_def dict_get_default_def
      split: option.splits json.splits)

lemma high_issue_dict: "is_dict v \<Longrightarrow> \<exists>n. high_issue v = Inr n"
  by (cases v) auto

lemma well_formed_high:
  assumes "well_formed_result x"
  shows "\<exists>n. high_issues x = Inr n"
proof (cases "map_of x ''issues''")
  case None
  then show ?thesis by (simp add: high_issues_def issues_of_def dict_get_default_def)
next
  case (Some v)
  with assms obtain issues where v: "v = JList issues" and d: "list_all is_dict issues"
    by (auto simp add: well_formed_result_def split: json.splits)
  have "\<exists>n. sum_results (map high_issue issues) = Inr n"
    using d high_issue_dict by (intro sum_results_all_Inr) (auto simp add: list_all_iff)
  then show ?thesis
    using Some v by (simp add: high_issues_def issues_of_def dict_get_default_def)
qed

lemma well_formed_breaking:
  assumes "well_formed_result x"
  shows "truthy (dict_get x ''has_breaking_changes'')
         \<longleftrightarrow> map_of x ''has_breaking_changes'' = Some (JBool True)"
  using assms
  by (auto simp add: well_formed_result_def dict_get_def split: option.splits json.splits)

lemma review_status_overall_general:
  assumes "review_status r = Inr s"
  shows "security_issue_count s = length (security_issues r)
         \<and> overall_status s =
             (if security_issues r \<noteq> []
                 \<or> (\<exists>x \<in> set (review_results r). truthy (dict_get x ''has_breaking_changes''))
              then ''needs_attention'' else ''approved'')"
  using assms
  by (auto simp add: review_status_def py_any_def list_ex_iff split: sum.splits)

text \<open>
  C1. For every sequence of review results of the shape of the data model, the status
  that \<open>save_results\<close> computes exists, counts the accumulated security findings, and
  has \<open>overall_status\<close> equal to \<open>needs_attention\<close> exactly when that count is positive
  or some result has \<open>has_breaking_changes\<close> true; otherwise it is \<open>approved\<close>.
\<close>

theorem review_status_overall:
  assumes "list_all well_formed_result (review_results r)"
  shows "\<exists>s. review_status r = Inr s
           \<and> security_issue_count s = length (security_issues r)
           \<and> (overall_status s = ''needs_attention'' \<longleftrightarrow>
                0 < security_issue_count s
                \<or> (\<exists>x \<in> set (review_results r).
                      map_of x ''has_breaking_changes'' = Some (JBool True)))
           \<and> (overall_status s \<noteq> ''needs_attention'' \<longrightarrow> overall_status s = ''approved'')"
proof -
  have wf: "\<forall>x \<in> set (review_results r). well_formed_result x"
    using assms by (simp add: list_all_iff)
  obtain n where n: "sum_results (map (\<lambda>x. py_len (issues_of x)) (review_results r)) = Inr n"
    using sum_results_all_Inr [of "review_results r" "\<lambda>x. py_len (issues_of x)"]
      wf well_formed_len by blast
  obtain m where m: "sum_results (map high_issues (review_results r)) = Inr m"
    using sum_results_all_Inr [of "review_results r" high_issues] wf well_formed_high
    by blast
  obtain s where s: "review_status r = Inr s"
    using n m by (simp add: review_status_def)
  have br: "(\<exists>x \<in> set (review_results r). truthy (dict_get x ''has_breaking_changes''))
            \<longleftrightarrow> (\<exists>x \<in> set (review_results r).
                   map_of x ''has_breaking_changes'' = Some (JBool True))"
    using wf well_formed_breaking by blast
  show ?thesis
    using s review_status_overall_general [OF s] br by auto
qed

lemma reviewed_two_status:
  "review_status reviewed_two =
     Inr \<lparr>total_files = 2, total_issues = 1, high_severity_issues = 1,
          security_issue_count = 0, overall_status = ''approved''\<rparr>"
  by code_simp

theorem review_status_overall_witness:
  "list_all well_formed_result (review_results reviewed_two)
   \<and> (\<exists>s. review_status reviewed_two = Inr s \<and> overall_status s = ''approved'')
   \<and> list_all well_formed_result (review_results breaking_reviewer)
   \<and> (\<exists>s. review_status breaking_reviewer = Inr s
          \<and> overall_status s = ''needs_attention'')"
proof -
  have a: "list_all well_formed_result (review_results reviewed_two)"
    by code_simp
  have b: "security_issues reviewed_two = []"
    by (simp add: reviewed_two_def)
  have c: "\<not> (\<exists>x \<in> set (review_results reviewed_two).
                map_of x ''has_breaking_changes'' = Some (JBool True))"
    by (simp add: reviewed_two_def)
  have d: "list_all well_formed_result (review_results breaking_reviewer)"
    by code_simp
  have e: "\<exists>x \<in> set (review_results breaking_reviewer).
             map_of x ''has_breaking_changes'' = Some (JBool True)"
    by (simp add: breaking_reviewer_def)
  have approved: "\<exists>s. review_status reviewed_two = Inr s \<and> overall_status s = ''approved''"
    using a b c review_status_overall [of reviewed_two] by auto
  have attention: "\<exists>s. review_status breaking_reviewer = Inr s
          \<and> overall_status s = ''needs_attention''"
    using d e review_status_overall [of breaking_reviewer] by auto
  show ?thesis
    using a d approved attention by simp
qed

section \<open>Reviewing files\<close>

lemma map_of_dict_set: "map_of (dict_set d k v) = (map_of d)(k \<mapsto> v)"
  by (simp add: dict_set_def update_conv')








text \<open>
  C4, as stated, fails: the reply below has an issue with line -1 and severity
  \<open>critical\<close>, and the result of \<open>review_file\<close> carries it with that severity, not
  \<open>low\<close>.
\<close>

theorem review_file_severity_not_normalized:
  "dict_get (fst (review_file odd_issue_world fresh_reviewer ''app.py'')) ''issues''
     = JList [JDict odd_issue]
   \<and> dict_get odd_issue ''line'' = JInt (- 1)
   \<and> dict_get odd_issue ''severity'' = JStr ''critical''
   \<and> dict_get odd_issue ''severity'' \<noteq> JStr ''low''"
  by code_simp

text \<open>
  C4, amended. For a reply that parses to a JSON object, the result of \<open>review_file\<close>
  carries the \<open>issues\<close> of the reply exactly as the reply gave them: when the reply
  lists issues, the result lists the same issues in the same order, so that no issue is
  dropped and the severity and the line of every issue, whatever they are, are
  unchanged.
\<close>

theorem review_file_keeps_issues:
  assumes "get_file_content w file_path = Some content" "content \<noteq> []"
    "get_file_diff w r file_path = Some diff"
    "generate_content w (create_review_prompt file_path diff content) = Response raw"
    "json_loads w raw = Loaded (JDict review_data)"
  shows "map_of (fst (review_file w r file_path)) ''issues'' = map_of review_data ''issues''
         \<and> (\<forall>issues. map_of review_data ''issues'' = Some (JList issues)
               \<longrightarrow> dict_get (fst (review_file w r file_path)) ''issues'' = JList issues)"
proof -
  have "map_of (fst (review_file w r file_path)) ''issues'' = map_of review_data ''issues''"
    using assms by (simp add: review_file_def ai_review_def Let_def map_of_dict_set)
  then show ?thesis
    by (simp add: dict_get_def)
qed

theorem review_file_keeps_issues_witness:
  "get_file_content odd_issue_world ''app.py'' = Some ''x = 1''
   \<and> get_file_diff odd_issue_world fresh_reviewer ''app.py'' = Some ''+x = 1''
   \<and> generate_content odd_issue_world
        (create_review_prompt ''app.py'' ''+x = 1'' ''x = 1'') = Response odd_reply_text
   \<and> json_loads odd_issue_world odd_reply_text = Loaded odd_reply
   \<and> map_of (fst (review_file odd_issue_world fresh_reviewer ''app.py'')) ''issues''
       = Some (JList [JDict odd_issue])
   \<and> dict_get (fst (review_file odd_issue_world fresh_reviewer ''app.py'')) ''issues''
       = JList [JDict odd_issue]"
proof -
  have a: "get_file_content odd_issue_world ''app.py'' = Some ''x = 1''"
    by (simp add: get_file_content_def odd_issue_world_def garbled_world_def quiet_world_def)
  have b: "get_file_diff odd_issue_world fresh_reviewer ''app.py'' = Some ''+x = 1''"
    by (simp add: get_file_diff_def odd_issue_world_def garbled_world_def quiet_world_def
        Let_def)
  have c: "generate_content odd_issue_world
             (create_review_prompt ''app.py'' ''+x = 1'' ''x = 1'') = Response odd_reply_text"
    by (simp add: odd_issue_world_def garbled_world_def quiet_world_def)
  have d: "json_loads odd_issue_world odd_reply_text
           = Loaded (JDict [(''summary'', JStr ''ok''), (''issues'', JList [JDict odd_issue])])"
    by (simp add: odd_issue_world_def garbled_world_def quiet_world_def odd_reply_def)
  show ?thesis
    using a b c d
      review_file_keeps_issues
        [where w = odd_issue_world and r = fresh_reviewer and file_path = "''app.py''"
           and content = "''x = 1''" and diff = "''+x = 1''" and raw = odd_reply_text
           and review_data = "[(''summary'', JStr ''ok''), (''issues'', JList [JDict odd_issue])]"]
    by (simp add: odd_reply_def)
qed

text \<open>
  The marker of the summary comment: the low marker for an issue without a severity, the
  white circle for a severity that is a string other than high, medium and low.
\<close>

lemma severity_emoji_cases:
  "(map_of issue ''severity'' = None \<longrightarrow> severity_emoji (JDict issue) = Inr Green_Circle)
   \<and> (map_of issue ''severity'' = Some (JStr s) \<and> s \<notin> {''high'', ''medium'', ''low''}
        \<longrightarrow> severity_emoji (JDict issue) = Inr White_Circle)"
  by (simp add: marker_of_def dict_get_default_def)

section \<open>Creating labels\<close>

lemma create_label_if_needed_listed:
  assumes "get_existing_labels gl h = (names, ha)" "name \<in> set names"
  shows "create_label_if_needed gl name color h = (True, 0, ha)"
  using assms by (simp add: create_label_if_needed_def)

lemma create_label_if_needed_failed:
  assumes "get_existing_labels gl h = (names, ha)" "name \<notin> set names"
    "post_label gl name color ha = (reply, hb)" "reply \<noteq> PostStatus 201"
  shows "create_label_if_needed gl name color h = (False, 1, hb)"
  using assms by (cases reply) (simp_all add: create_label_if_needed_def)

lemma create_label_if_needed_at_most_one:
  assumes "create_label_if_needed gl name color h = (ok, n, h')"
  shows "n \<le> 1"
  using assms
  by (auto simp add: create_label_if_needed_def split: prod.splits if_splits post_reply.splits)

lemma create_label_if_needed_success_listed:
  assumes "keeps_labels gl" "create_label_if_needed gl name color h = (True, n, h')"
  shows "name \<in> set (fst (get_existing_labels gl h'))"
proof -
  obtain names ha where g: "get_existing_labels gl h = (names, ha)"
    by (cases "get_existing_labels gl h")
  show ?thesis
  proof (cases "name \<in> set names")
    case True
    then have "h' = ha"
      using assms(2) g by (simp add: create_label_if_needed_def)
    moreover have "set names \<subseteq> set (fst (get_existing_labels gl ha))"
      using assms(1) g unfolding keeps_labels_def by blast
    ultimately show ?thesis using True by blast
  next
    case False
    obtain reply hb where p: "post_label gl name color ha = (reply, hb)"
      by (cases "post_label gl name color ha")
    have "reply = PostStatus 201 \<and> h' = hb"
      using assms(2) g False p
      by (cases reply) (simp_all add: create_label_if_needed_def)
    then show ?thesis
      using assms(1) p unfolding keeps_labels_def by blast
  qed
qed

lemma create_labels_skips_failure:
  assumes "create_label_if_needed gl tag (color_of tag) h = (False, n, ha)"
  shows "fst (create_labels gl color_of (tag # tags) h) = fst (create_labels gl color_of tags ha)"
  using assms by (simp split: prod.splits)

lemma create_label_if_needed_created:
  assumes "get_existing_labels gl h = (names, ha)" "name \<notin> set names"
    "post_label gl name color ha = (PostStatus 201, hb)"
  shows "create_label_if_needed gl name color h = (True, 1, hb)"
  using assms by (simp add: create_label_if_needed_def)

lemma create_label_if_needed_twice:
  assumes k: "keeps_labels gl"
    and g: "get_existing_labels gl h = (names, ha)"
    and s: "name \<in> set names \<or> fst (post_label gl name color ha) = PostStatus 201"
    and c1: "create_label_if_needed gl name color h = (oka, na, h')"
    and c2: "create_label_if_needed gl name color h' = (okb, nb, h'')"
  shows "oka \<and> okb \<and> nb = 0 \<and> na + nb \<le> 1"
proof -
  have first: "oka"
  proof (cases "name \<in> set names")
    case True
    then show ?thesis
      using create_label_if_needed_listed [OF g True, of color] c1 by simp
  next
    case False
    obtain reply hb where p: "post_label gl name color ha = (reply, hb)"
      by (cases "post_label gl name color ha")
    then have "reply = PostStatus 201" using s False by simp
    then show ?thesis
      using create_label_if_needed_created [OF g False, of color hb] p c1 by simp
  qed
  then have c1': "create_label_if_needed gl name color h = (True, na, h')"
    using c1 by simp
  have l: "name \<in> set (fst (get_existing_labels gl h'))"
    using create_label_if_needed_success_listed [OF k c1'] .
  obtain names' hx where g': "get_existing_labels gl h' = (names', hx)"
    by (cases "get_existing_labels gl h'")
  have "create_label_if_needed gl name color h' = (True, 0, hx)"
    using create_label_if_needed_listed [OF g'] l g' by simp
  then have second: "okb \<and> nb = 0" using c2 by simp
  have "na \<le> 1"
    using create_label_if_needed_at_most_one [OF c1] .
  then show ?thesis
    using first second by simp
qed

text \<open>
  C6. \<open>create_label_if_needed\<close> called with a name that the listing of the host
  contains sends no creation request and returns true, and called with a name that the
  listing does not contain it sends one creation request and returns true when that is
  answered with 201. Hence on a host that keeps its labels, two calls with the same name
  and color, the first with the name listed or its creation answered with 201, both
  return true, the second sends no creation request, and the two send at most one.
  When the creation request is not answered with 201, or raises, the function returns
  false, and the loop over the tags goes on with the remaining tags.
\<close>

theorem create_label_if_needed_idempotent:
  "(get_existing_labels gl h = (names, ha) \<and> name \<in> set names
      \<longrightarrow> create_label_if_needed gl name color h = (True, 0, ha))
   \<and> (get_existing_labels gl h = (names, ha) \<and> name \<notin> set names
        \<and> post_label gl name color ha = (PostStatus 201, hb)
      \<longrightarrow> create_label_if_needed gl name color h = (True, 1, hb))
   \<and> (keeps_labels gl
        \<and> get_existing_labels gl h = (names, ha)
        \<and> (name \<in> set names \<or> fst (post_label gl name color ha) = PostStatus 201)
        \<and> create_label_if_needed gl name color h = (oka, na, h')
        \<and> create_label_if_needed gl name color h' = (okb, nb, h'')
      \<longrightarrow> oka \<and> okb \<and> nb = 0 \<and> na + nb \<le> 1)
   \<and> (get_existing_labels gl h = (names, ha) \<and> name \<notin> set names
        \<and> post_label gl name color ha = (reply, hb) \<and> reply \<noteq> PostStatus 201
      \<longrightarrow> create_label_if_needed gl name color h = (False, 1, hb))
   \<and> (create_label_if_needed gl name color h = (False, n, hc)
      \<longrightarrow> fst (create_labels gl (\<lambda>t. color) (name # tags) h)
          = fst (create_labels gl (\<lambda>t. color) tags hc))"
proof -
  have listed: "get_existing_labels gl h = (names, ha) \<and> name \<in> set names
      \<longrightarrow> create_label_if_needed gl name color h = (True, 0, ha)"
    by (simp add: create_label_if_needed_listed)
  have created: "get_existing_labels gl h = (names, ha) \<and> name \<notin> set names
        \<and> post_label gl name color ha = (PostStatus 201, hb)
      \<longrightarrow> create_label_if_needed gl name color h = (True, 1, hb)"
    by (simp add: create_label_if_needed_created)
  have twice: "keeps_labels gl
        \<and> get_existing_labels gl h = (names, ha)
        \<and> (name \<in> set names \<or> fst (post_label gl name color ha) = PostStatus 201)
        \<and> create_label_if_needed gl name color h = (oka, na, h')
        \<and> create_label_if_needed gl name color h' = (okb, nb, h'')
      \<longrightarrow> oka \<and> okb \<and> nb = 0 \<and> na + nb \<le> 1"
  proof (intro impI, elim conjE)
    assume k: "keeps_labels gl"
      and g: "get_existing_labels gl h = (names, ha)"
      and s: "name \<in> set names \<or> fst (post_label gl name color ha) = PostStatus 201"
      and ca: "create_label_if_needed gl name color h = (oka, na, h')"
      and cb: "create_label_if_needed gl name color h' = (okb, nb, h'')"
    show "oka \<and> okb \<and> nb = 0 \<and> na + nb \<le> 1"
      using create_label_if_needed_twice [OF k g s ca cb] .
  qed
  have failed: "get_existing_labels gl h = (names, ha) \<and> name \<notin> set names
        \<and> post_label gl name color ha = (reply, hb) \<and> reply \<noteq> PostStatus 201
      \<longrightarrow> create_label_if_needed gl name color h = (False, 1, hb)"
    by (simp add: create_label_if_needed_failed)
  have goes_on: "create_label_if_needed gl name color h = (False, n, hc)
      \<longrightarrow> fst (create_labels gl (\<lambda>t. color) (name # tags) h)
          = fst (create_labels gl (\<lambda>t. color) tags hc)"
    using create_labels_skips_failure [of gl name "\<lambda>t. color"] by simp
  show ?thesis
    using listed created twice failed goes_on by (intro conjI)
qed

lemma keeps_labels_label_store: "keeps_labels label_store"
  by (auto simp add: keeps_labels_def label_store_def get_existing_labels_def
      split: if_splits)

theorem create_label_if_needed_idempotent_witness:
  "keeps_labels label_store
   \<and> get_existing_labels label_store [] = ([], [])
   \<and> post_label label_store ''python'' ''#3776ab'' [] = (PostStatus 201, [''python''])
   \<and> create_label_if_needed label_store ''python'' ''#3776ab'' [] = (True, 1, [''python''])
   \<and> create_label_if_needed label_store ''python'' ''#3776ab'' [''python'']
       = (True, 0, [''python''])
   \<and> get_existing_labels refusing_store [] = ([], [])
   \<and> post_label refusing_store ''python'' ''#3776ab'' [] = (PostStatus 500, [])
   \<and> create_label_if_needed refusing_store ''python'' ''#3776ab'' [] = (False, 1, [])
   \<and> fst (create_labels refusing_store (\<lambda>t. ''#3776ab'') [''python'', ''api''] [])
       = fst (create_labels refusing_store (\<lambda>t. ''#3776ab'') [''api''] [])"
proof -
  have a: "get_existing_labels label_store [] = ([], [])"
    by (simp add: get_existing_labels_def label_store_def)
  have b: "post_label label_store ''python'' ''#3776ab'' [] = (PostStatus 201, [''python''])"
    by (simp add: label_store_def)
  have c: "get_existing_labels label_store [''python''] = ([''python''], [''python''])"
    by (simp add: get_existing_labels_def label_store_def)
  have d: "get_existing_labels refusing_store [] = ([], [])"
    by (simp add: get_existing_labels_def refusing_store_def label_store_def)
  have e: "post_label refusing_store ''python'' ''#3776ab'' [] = (PostStatus 500, [])"
    by (simp add: refusing_store_def label_store_def)
  note store = create_label_if_needed_idempotent
        [where gl = label_store and h = "[]" and names = "[]" and ha = "[]"
           and name = "''python''" and color = "''#3776ab''" and hb = "[''python'']"]
  have first: "create_label_if_needed label_store ''python'' ''#3776ab'' []
               = (True, 1, [''python''])"
    using store a b by simp
  have second: "create_label_if_needed label_store ''python'' ''#3776ab'' [''python'']
               = (True, 0, [''python''])"
    using c
      create_label_if_needed_idempotent
        [where gl = label_store and h = "[''python'']" and names = "[''python'']"
           and ha = "[''python'']" and name = "''python''" and color = "''#3776ab''"]
    by simp
  note refusing = create_label_if_needed_idempotent
        [where gl = refusing_store and h = "[]" and names = "[]" and ha = "[]"
           and name = "''python''" and color = "''#3776ab''"
           and reply = "PostStatus 500" and hb = "[]" and n = 1 and hc = "[]"
           and tags = "[''api'']"]
  have refused: "create_label_if_needed refusing_store ''python'' ''#3776ab'' []
                 = (False, 1, [])"
    using refusing d e by simp
  have goes_on: "fst (create_labels refusing_store (\<lambda>t. ''#3776ab'') [''python'', ''api''] [])
       = fst (create_labels refusing_store (\<lambda>t. ''#3776ab'') [''api''] [])"
    using refusing refused by simp
  show ?thesis
    using a b d e first second refused goes_on keeps_labels_label_store by simp
qed

section \<open>Tags\<close>

lemma finite_language_tags: "finite tags \<Longrightarrow> finite (language_tags p tags)"
  by (simp add: language_tags_def)

lemma finite_function_tags: "finite tags \<Longrightarrow> finite (function_tags p tags)"
  by (simp add: function_tags_def Let_def)

lemma language_tags_no_performance:
  "''performance'' \<in> language_tags p tags \<longleftrightarrow> ''performance'' \<in> tags"
  by (simp add: language_tags_def)

lemma function_tags_no_performance:
  "''performance'' \<in> function_tags p tags \<longleftrightarrow> ''performance'' \<in> tags"
  by (simp add: function_tags_def Let_def)

lemma file_tags_no_performance:
  assumes "file_tags fc tags = Inr ts"
  shows "''performance'' \<in> ts \<longleftrightarrow> ''performance'' \<in> tags"
  using assms
proof (induction fc arbitrary: tags)
  case Nil
  then show ?case by simp
next
  case (Cons c fc)
  then show ?case
    by (auto simp add: language_tags_no_performance function_tags_no_performance
        split: option.splits json.splits)
qed

lemma file_tags_finite:
  assumes "file_tags fc tags = Inr ts" "finite tags"
  shows "finite ts"
  using assms
proof (induction fc arbitrary: tags)
  case Nil
  then show ?case by simp
next
  case (Cons c fc)
  then show ?case
    by (auto simp add: finite_language_tags finite_function_tags
        split: option.splits json.splits)
qed

lemma result_tags_finite: "finite tags \<Longrightarrow> finite (result_tags r tags)"
  by (simp add: result_tags_def Let_def)

lemma result_tags_performance:
  "''performance'' \<in> result_tags r tags \<longleftrightarrow>
     ''performance'' \<in> tags
     \<or> py_any (map (\<lambda>x. dict_get x ''performance_impact'') (review_results r))"
  by (simp add: result_tags_def Let_def)

lemma determine_tags_performance:
  assumes "determine_tags r fc = Inr ts"
  shows "''performance'' \<in> set ts \<longleftrightarrow>
           (\<exists>x \<in> set (review_results r). truthy (dict_get x ''performance_impact''))"
proof -
  obtain tags where f: "file_tags fc {} = Inr tags"
    and t: "ts = sorted_list_of_set (result_tags r tags)"
    using assms by (auto simp add: determine_tags_def split: sum.splits)
  have "finite (result_tags r tags)"
    using file_tags_finite [OF f] result_tags_finite by simp
  then have "set ts = result_tags r tags"
    using t by simp
  moreover have "''performance'' \<notin> tags"
    using file_tags_no_performance [OF f] by simp
  ultimately show ?thesis
    by (simp add: result_tags_performance py_any_def list_ex_iff)
qed


text \<open>
  C7 fails on the code: the only review result below reports the performance impact
  \<open>neutral\<close>, and \<open>determine_tags\<close> returns the tag \<open>performance\<close>. The test of the
  source is the truth value of the field, which is true for every non-empty string.
\<close>

theorem determine_tags_neutral_performance:
  "map (\<lambda>x. dict_get x ''performance_impact'') (review_results neutral_reviewer)
     = [JStr ''neutral'']
   \<and> determine_tags neutral_reviewer (review_results neutral_reviewer)
       = Inr [''performance'', ''python'']"
  by code_simp


lemma iteration_order_descending: "iteration_order descending"
  by (simp add: iteration_order_def descending_def)

text \<open>
  C8, as stated, fails for \<open>enhance_tags_with_context\<close>: with the set iterated in
  descending order, the result for the tag \<open>python\<close> and a status with five issues is
  not sorted.
\<close>

theorem enhance_tags_not_sorted:
  "iteration_order descending
   \<and> enhance_tags_with_context descending [''python''] five_issue_status
       = Inr [''python'', ''ai-reviewed'']
   \<and> \<not> sorted [''python'', ''ai-reviewed'']"
proof -
  have "enhance_tags_with_context descending [''python''] five_issue_status
       = Inr [''python'', ''ai-reviewed'']"
    by code_simp
  moreover have "\<not> sorted [''python'', ''ai-reviewed'']"
    by code_simp
  ultimately show ?thesis
    using iteration_order_descending by simp
qed

lemma file_tags_total:
  assumes "\<forall>c \<in> set fc. \<exists>p. map_of c ''file'' = Some (JStr p)"
  shows "\<exists>ts. file_tags fc tags = Inr ts"
  using assms by (induction fc arbitrary: tags) auto

lemma determine_tags_sorted:
  assumes "determine_tags r fc = Inr ts"
  shows "sorted ts \<and> distinct ts"
  using assms by (auto simp add: determine_tags_def split: sum.splits)

lemma enhanced_tags_contains:
  assumes "enhanced_tags tags status = Inr ts"
  shows "set tags \<union> {''ai-reviewed''} \<subseteq> set ts"
  using assms
  by (auto simp add: enhanced_tags_def Let_def split: sum.splits if_splits)

text \<open>
  C8, amended. The list that \<open>determine_tags\<close> returns is sorted and without
  duplicates, and it is returned whenever every change has a path. The list that
  \<open>enhance_tags_with_context\<close> returns is without duplicates and contains the given tags
  and \<open>ai-reviewed\<close>, in the iteration order of the set; with an empty status it is
  always returned.
\<close>

theorem tag_lists_distinct:
  "(determine_tags r fc = Inr ts \<longrightarrow> sorted ts \<and> distinct ts)
   \<and> ((\<forall>c \<in> set fc. \<exists>p. map_of c ''file'' = Some (JStr p))
        \<longrightarrow> (\<exists>ts. determine_tags r fc = Inr ts))
   \<and> (iteration_order set_order
        \<and> enhance_tags_with_context set_order tags status = Inr ts'
      \<longrightarrow> distinct ts' \<and> set tags \<union> {''ai-reviewed''} \<subseteq> set ts')
   \<and> (\<exists>ts. enhance_tags_with_context set_order tags [] = Inr ts)"
proof -
  have sorted_out: "determine_tags r fc = Inr ts \<longrightarrow> sorted ts \<and> distinct ts"
    using determine_tags_sorted by blast
  have total_out: "(\<forall>c \<in> set fc. \<exists>p. map_of c ''file'' = Some (JStr p))
        \<longrightarrow> (\<exists>ts. determine_tags r fc = Inr ts)"
  proof
    assume "\<forall>c \<in> set fc. \<exists>p. map_of c ''file'' = Some (JStr p)"
    then obtain tags0 where "file_tags fc {} = Inr tags0"
      using file_tags_total by blast
    then show "\<exists>ts. determine_tags r fc = Inr ts"
      by (simp add: determine_tags_def)
  qed
  have enhanced: "iteration_order set_order
        \<and> enhance_tags_with_context set_order tags status = Inr ts'
      \<longrightarrow> distinct ts' \<and> set tags \<union> {''ai-reviewed''} \<subseteq> set ts'"
  proof
    assume a: "iteration_order set_order
        \<and> enhance_tags_with_context set_order tags status = Inr ts'"
    then obtain ts0 where e: "enhanced_tags tags status = Inr ts0"
      and t: "ts' = set_order (set ts0)"
      by (auto simp add: enhance_tags_with_context_def split: sum.splits)
    have "set ts' = set ts0 \<and> distinct ts'"
      using a t unfolding iteration_order_def by simp
    then show "distinct ts' \<and> set tags \<union> {''ai-reviewed''} \<subseteq> set ts'"
      using enhanced_tags_contains [OF e] by simp
  qed
  have returns: "\<exists>ts. enhance_tags_with_context set_order tags [] = Inr ts"
    by (simp add: enhance_tags_with_context_def enhanced_tags_def status_get_def
        dict_get_default_def greater_than_def equals_zero_def Let_def)
  show ?thesis
    using sorted_out total_out enhanced returns by (intro conjI)
qed

theorem tag_lists_distinct_witness:
  "determine_tags neutral_reviewer (review_results neutral_reviewer)
     = Inr [''performance'', ''python'']
   \<and> sorted [''performance'', ''python''] \<and> distinct [''performance'', ''python'']
   \<and> iteration_order descending
   \<and> enhance_tags_with_context descending [''python''] five_issue_status
       = Inr [''python'', ''ai-reviewed'']
   \<and> distinct [''python'', ''ai-reviewed'']"
proof -
  have a: "determine_tags neutral_reviewer (review_results neutral_reviewer)
     = Inr [''performance'', ''python'']"
    by code_simp
  have b: "enhance_tags_with_context descending [''python''] five_issue_status
       = Inr [''python'', ''ai-reviewed'']"
    by code_simp
  show ?thesis
    using a b iteration_order_descending
      tag_lists_distinct
        [where r = neutral_reviewer and fc = "review_results neutral_reviewer"
           and ts = "[''performance'', ''python'']" and set_order = descending
           and tags = "[''python'']" and status = five_issue_status
           and ts' = "[''python'', ''ai-reviewed'']"]
    by simp
qed

end
